theory Spec2Isabelle
  imports Main
begin

section \<open>Values, error details and exceptions\<close>

text \<open>
  Python values as they reach the serializers from a parsed JSON body: null, integers,
  strings and arrays.  \<open>PEmpty\<close> is the class \<open>rest_framework.fields.empty\<close>, the
  marker that \<open>Field.get_value\<close> returns for an absent key (the only class object that
  can end up as a lookup key).  Booleans and floats are left out.
\<close>

datatype pyval = PNone | PInt int | PStr string | PList "pyval list" | PEmpty

text \<open>A JSON object, a validated attribute dict and a rendered representation are dicts.\<close>

type_synonym item = "(string \<times> pyval) list"
type_synonym validated = "(string \<times> pyval) list"
type_synonym repr = "(string \<times> pyval) list"

text \<open>\<open>ErrorDetail\<close>: a message string carrying a code.\<close>

record error_detail =
  message :: string
  code :: string

text \<open>The error dict of one record: field name to its list of error details; \<open>{}\<close> is \<open>[]\<close>.\<close>

type_synonym detail = "(string \<times> error_detail list) list"

text \<open>
  The shapes \<open>ValidationError.detail\<close> takes in this code: a list of error details
  (raised from a plain message), one dict (a shape-level error), or a list with one
  dict per input record.
\<close>

datatype errors = ErrMsgs "error_detail list" | ErrDict detail | ErrRows "detail list"

datatype exn =
    ValidationError errors
  | ParseError string
  | AssertionError
  | SkipField
  | DoesNotExist
  | MultipleObjectsReturned
  | AttributeError
  | KeyError string
  | TypeError
  | ValueError
  | IndexError

text \<open>A model instance: the value of its lookup attribute and its other attributes.\<close>

record entity =
  key :: pyval
  attrs :: "(string \<times> pyval) list"

text \<open>
  The request data: a JSON array of objects; JSON null; an HTML form (a multi-value
  dict), given by what \<open>parse_html_list\<close> makes of it, a list of records or \<open>None\<close> when
  the form has no indexed keys; or a value of another type, given by the name of its
  type.
\<close>

datatype body = BodyList "item list" | BodyNull | BodyForm "item list option" | BodyOther string

text \<open>
  The value of \<open>_validated_data\<close>: a list of validated records, or \<open>None\<close>, which
  \<open>run_validation\<close> returns for an empty value.
\<close>

datatype vdata = Records "validated list" | NoData

text \<open>Truthiness of the values the code tests with \<open>if x\<close>, \<open>bool(x)\<close> and \<open>any\<close>.\<close>

fun truthy_errors :: "errors \<Rightarrow> bool" where
  "truthy_errors (ErrMsgs ms) = (ms \<noteq> [])"
| "truthy_errors (ErrDict d) = (d \<noteq> [])"
| "truthy_errors (ErrRows rs) = (rs \<noteq> [])"

fun truthy :: "pyval \<Rightarrow> bool" where
  "truthy PNone = False"
| "truthy (PInt n) = (n \<noteq> 0)"
| "truthy (PStr s) = (s \<noteq> [])"
| "truthy (PList xs) = (xs \<noteq> [])"
| "truthy PEmpty = True"

section \<open>The list serializer\<close>

text \<open>
  The per-record serializer (\<open>self.child\<close>) and the list-level hooks are the host
  framework's; they are parameters.  \<open>child_run_validation\<close> gets the instance the child
  is bound to (\<open>self.child.instance\<close>) and the record, and either raises a validation
  error with an error dict or returns the validated attributes.  \<open>child_update\<close> gets
  what \<open>dict.get\<close> returned, \<open>None\<close> included.  \<open>child_to_representation\<close> renders an
  instance, \<open>child_represent_dict\<close> is the same method applied to a dict of attributes.
  \<open>list_validate\<close> is \<open>run_validators\<close> followed by \<open>validate\<close> on the list serializer
  (the identity unless overridden), its failure already coerced by
  \<open>as_serializer_error\<close>; \<open>get_initial\<close> is the list serializer's method of that name.
  \<open>key_to_python\<close> is the conversion that the model field of the lookup attribute
  applies to a lookup value before the database compares it (\<open>get_prep_value\<close>); it
  raises for a value it cannot convert.
\<close>

record child =
  child_run_validation :: "entity option \<Rightarrow> item \<Rightarrow> detail + validated"
  child_create :: "validated \<Rightarrow> entity"
  child_update :: "entity \<Rightarrow> validated option \<Rightarrow> entity"
  child_to_representation :: "entity \<Rightarrow> repr"
  child_represent_dict :: "validated \<Rightarrow> repr"
  list_validate :: "validated list \<Rightarrow> detail + validated list"
  get_initial :: "body option \<Rightarrow> repr list"
  key_to_python :: "pyval \<Rightarrow> exn + pyval"

text \<open>
  \<open>EasyBulkListSerializer\<close>: its configuration, and the attributes that \<open>hasattr\<close> tests,
  \<open>None\<close> when the attribute is not set (\<open>self_instance\<close> is \<open>self.instance\<close>).
  \<open>view_action\<close> is \<open>None\<close> when the context has no view.
\<close>

record serializer =
  view_action :: "string option"
  id_attr :: string
  allow_empty :: bool
  allow_null :: bool
  has_parent :: bool
  partial :: bool
  allow_errors :: bool
  initial_data :: "body option"
  self_instance :: "entity list option"
  validated_data :: "vdata option"
  errors :: "errors option"
  data_cache :: "repr list option"

definition required_error :: "string \<Rightarrow> detail" where
  "required_error a = [(a, [\<lparr>message = ''This field is required.'', code = ''invalid''\<rparr>])]"

definition not_a_list_error :: "string \<Rightarrow> errors" where
  "not_a_list_error t = ErrDict [(''non_field_errors'',
     [\<lparr>message = ''Expected a list of items but got type \"'' @ t @ ''\".'', code = ''not_a_list''\<rparr>])]"

definition null_error :: errors where
  "null_error = ErrMsgs [\<lparr>message = ''This field may not be null.'', code = ''null''\<rparr>]"

definition empty_error :: errors where
  "empty_error = ErrDict [(''non_field_errors'',
     [\<lparr>message = ''This list may not be empty.'', code = ''empty''\<rparr>])]"

text \<open>
  \<open>QuerySet.get(**{id_attr: k})\<close>: the lookup value is converted to the type of the
  column, which may raise; then the one instance with that key, or an exception.
\<close>

definition qs_get :: "(pyval \<Rightarrow> exn + pyval) \<Rightarrow> entity list \<Rightarrow> pyval \<Rightarrow> exn + entity" where
  "qs_get to_python qs k =
     (case to_python k of
        Inl e \<Rightarrow> Inl e
      | Inr k' \<Rightarrow>
          (case filter (\<lambda>e. key e = k') qs of
             [] \<Rightarrow> Inl DoesNotExist
           | [e] \<Rightarrow> Inr e
           | _ \<Rightarrow> Inl MultipleObjectsReturned))"

text \<open>
  The body of the \<open>try\<close> in the loop of \<open>to_internal_value\<close>.  A \<open>ValidationError\<close> is
  caught by the loop (\<open>Invalid\<close>); any other exception leaves it (\<open>Abort\<close>).
\<close>

datatype outcome = Valid validated | Invalid detail | Abort exn

definition try_item :: "child \<Rightarrow> serializer \<Rightarrow> item \<Rightarrow> outcome" where
  "try_item c s it =
     (if view_action s \<noteq> None \<and> view_action s \<noteq> Some ''create'' then
        (case map_of it (id_attr s) of
           None \<Rightarrow> Invalid (required_error (id_attr s))
         | Some k \<Rightarrow>
            (case self_instance s of
               None \<Rightarrow> Abort AttributeError
             | Some qs \<Rightarrow>
                (case qs_get (key_to_python c) qs k of
                   Inl e \<Rightarrow> Abort e
                 | Inr inst \<Rightarrow>
                    (case child_run_validation c (Some inst) it of
                       Inl d \<Rightarrow> Invalid d
                     | Inr v \<Rightarrow> Valid v))))
      else
        (case child_run_validation c None it of
           Inl d \<Rightarrow> Invalid d
         | Inr v \<Rightarrow> Valid v))"

text \<open>The \<open>for item in data\<close> loop, with its two accumulators \<open>ret\<close> and \<open>errors\<close>.\<close>

fun validate_items ::
  "child \<Rightarrow> serializer \<Rightarrow> item list \<Rightarrow> validated list \<Rightarrow> detail list
     \<Rightarrow> exn + (validated list \<times> detail list)" where
  "validate_items c s [] ret errs = Inr (ret, errs)"
| "validate_items c s (it # rest) ret errs =
     (case try_item c s it of
        Abort e \<Rightarrow> Inl e
      | Invalid d \<Rightarrow> validate_items c s rest ret (errs @ [d])
      | Valid v \<Rightarrow> validate_items c s rest (ret @ [v]) (errs @ [[]]))"

text \<open>
  The first two steps of \<open>to_internal_value\<close>: HTML input is replaced by its parsed
  list, and the result is a list or not, in which case the name of its type goes into
  the message.
\<close>

fun as_list :: "body \<Rightarrow> string + item list" where
  "as_list (BodyList items) = Inr items"
| "as_list (BodyForm (Some items)) = Inr items"
| "as_list (BodyForm None) = Inl ''NoneType''"
| "as_list BodyNull = Inl ''NoneType''"
| "as_list (BodyOther t) = Inl t"

text \<open>\<open>EasyBulkListSerializer.to_internal_value\<close>; the result is the dict \<open>{ret, errors}\<close>.\<close>

definition to_internal_value ::
  "child \<Rightarrow> serializer \<Rightarrow> body \<Rightarrow> exn + (validated list \<times> detail list)" where
  "to_internal_value c s data =
     (case as_list data of
        Inl t \<Rightarrow> Inl (ValidationError (not_a_list_error t))
      | Inr items \<Rightarrow>
          if \<not> allow_empty s \<and> length items = 0 then
            (if has_parent s \<and> partial s then Inl SkipField
             else Inl (ValidationError empty_error))
          else validate_items c s items [] [])"

text \<open>
  \<open>validate_empty_values\<close> of the framework, for a serializer that is not read-only
  and is given data: \<open>None\<close> is the one empty value, an error unless \<open>allow_null\<close>.  The
  result is \<open>is_empty_value\<close>; the data are returned as they are.
\<close>

definition validate_empty_values :: "serializer \<Rightarrow> body \<Rightarrow> exn + bool" where
  "validate_empty_values s data =
     (case data of
        BodyNull \<Rightarrow> if \<not> allow_null s then Inl (ValidationError null_error) else Inr True
      | _ \<Rightarrow> Inr False)"

text \<open>
  \<open>EasyBulkListSerializer.run_validation\<close>; the result is \<open>None\<close> for an empty value,
  where the data (\<open>None\<close>) are returned as they are, and else the dict
  \<open>{value, errors}\<close>.
\<close>

definition run_validation ::
  "child \<Rightarrow> serializer \<Rightarrow> body \<Rightarrow> exn + (validated list \<times> detail list) option" where
  "run_validation c s data =
     (case validate_empty_values s data of
        Inl e \<Rightarrow> Inl e
      | Inr True \<Rightarrow> Inr None
      | Inr False \<Rightarrow>
          (case to_internal_value c s data of
             Inl e \<Rightarrow> Inl e
           | Inr (ret, errs) \<Rightarrow>
               (case list_validate c ret of
                  Inl d \<Rightarrow> Inl (ValidationError (ErrDict d))
                | Inr v \<Rightarrow> Inr (Some (v, errs)))))"

text \<open>\<open>any(errors)\<close> over the per-record error dicts.\<close>

definition any_errors :: "detail list \<Rightarrow> bool" where
  "any_errors errs = list_ex (\<lambda>d. d \<noteq> []) errs"

definition errors_truthy :: "serializer \<Rightarrow> bool" where
  "errors_truthy s = (case errors s of None \<Rightarrow> False | Some e \<Rightarrow> truthy_errors e)"

text \<open>
  The property \<open>errors\<close> of the framework's list serializer: it asserts that \<open>_errors\<close> is
  set, and rewords the single "may not be null" error into a dict.
\<close>

definition errors_property :: "serializer \<Rightarrow> exn + errors" where
  "errors_property s =
     (case errors s of
        None \<Rightarrow> Inl AssertionError
      | Some (ErrMsgs [d]) \<Rightarrow>
          if code d = ''null''
          then Inr (ErrDict [(''non_field_errors'', [\<lparr>message = ''No data provided'', code = ''null''\<rparr>])])
          else Inr (ErrMsgs [d])
      | Some e \<Rightarrow> Inr e)"

text \<open>
  \<open>EasyBulkListSerializer.is_valid\<close>.  \<open>handle\<close> is the \<open>except ValidationError\<close> clause,
  which sees the assignments made in the \<open>try\<close> before the exception.
\<close>

definition handle :: "bool \<Rightarrow> errors \<Rightarrow> serializer \<Rightarrow> serializer" where
  "handle raise_exception d s =
     (if raise_exception then s\<lparr>validated_data := Some (Records []), errors := Some d\<rparr>
      else s\<lparr>errors := Some d\<rparr>)"

definition is_valid :: "child \<Rightarrow> bool \<Rightarrow> serializer \<Rightarrow> (exn + bool) \<times> serializer" where
  "is_valid c raise_exception s =
     (case initial_data s of
        None \<Rightarrow> (Inl AssertionError, s)
      | Some init \<Rightarrow>
          (case (if validated_data s = None then
                   (case run_validation c s init of
                      Inr (Some (v, errs)) \<Rightarrow>
                        (if any_errors errs
                         then Inr (handle raise_exception (ErrRows errs)
                                     (s\<lparr>validated_data := Some (Records v)\<rparr>))
                         else Inr (s\<lparr>validated_data := Some (Records v),
                                     errors := Some (ErrRows [])\<rparr>))
                    | Inr None \<Rightarrow>
                        Inr (s\<lparr>validated_data := Some NoData, errors := Some (ErrRows [])\<rparr>)
                    | Inl (ValidationError d) \<Rightarrow> Inr (handle raise_exception d s)
                    | Inl e \<Rightarrow> Inl e)
                 else Inr s) of
             Inl e \<Rightarrow> (Inl e, s)
           | Inr s' \<Rightarrow>
               (case errors s' of
                  None \<Rightarrow> (Inl AttributeError, s')
                | Some e \<Rightarrow>
                    if truthy_errors e \<and> raise_exception then
                      (case errors_property s' of
                         Inl x \<Rightarrow> (Inl x, s')
                       | Inr e' \<Rightarrow> (Inl (ValidationError e'), s'))
                    else (Inr (\<not> truthy_errors e), s'))))"

text \<open>
  The truth value of each element that \<open>enumerate(self._errors)\<close> yields: the error dicts
  of a list, the keys of a dict, the messages of a list of error details.
\<close>

fun error_flags :: "errors \<Rightarrow> bool list" where
  "error_flags (ErrRows rs) = map (\<lambda>d. d \<noteq> []) rs"
| "error_flags (ErrDict d) = map (\<lambda>p. fst p \<noteq> []) d"
| "error_flags (ErrMsgs ms) = map (\<lambda>m. message m \<noteq> []) ms"

definition error_positions :: "errors \<Rightarrow> nat list" where
  "error_positions e = map fst (filter snd (enumerate 0 (error_flags e)))"

text \<open>
  \<open>EasyBulkListSerializer.to_representation\<close>, for a list (not a manager); \<open>rep\<close> is
  \<open>self.child.to_representation\<close>.
\<close>

definition to_representation :: "('a \<Rightarrow> repr) \<Rightarrow> serializer \<Rightarrow> 'a list \<Rightarrow> repr list" where
  "to_representation rep s data =
     (let iterable =
        (case errors s of
           Some e \<Rightarrow>
             if data \<noteq> [] then
               map snd (filter (\<lambda>(i, v). i \<notin> set (error_positions e)) (enumerate 0 data))
             else data
         | None \<Rightarrow> data)
      in map rep iterable)"

text \<open>
  The property \<open>EasyBulkListSerializer.data\<close>; it caches its result in \<open>_data\<close>.
  Rendering \<open>None\<close> iterates over it, which raises.
\<close>

definition data :: "child \<Rightarrow> serializer \<Rightarrow> (exn + repr list) \<times> serializer" where
  "data c s =
     (if initial_data s \<noteq> None \<and> validated_data s = None then (Inl AssertionError, s)
      else
        (case data_cache s of
           Some d \<Rightarrow> (Inr d, s)
         | None \<Rightarrow>
             (case (case self_instance s of
                      Some inst \<Rightarrow>
                        if \<not> errors_truthy s \<or> allow_errors s
                        then Inr (to_representation (child_to_representation c) s inst)
                        else Inr (get_initial c (initial_data s))
                    | None \<Rightarrow>
                        (case validated_data s of
                           Some v \<Rightarrow>
                             if \<not> errors_truthy s \<or> allow_errors s
                             then (case v of
                                     Records vs \<Rightarrow>
                                       Inr (to_representation (child_represent_dict c) s vs)
                                   | NoData \<Rightarrow> Inl TypeError)
                             else Inr (get_initial c (initial_data s))
                         | None \<Rightarrow> Inr (get_initial c (initial_data s)))) of
                Inl e \<Rightarrow> (Inl e, s)
              | Inr d \<Rightarrow> (Inr d, s\<lparr>data_cache := Some d\<rparr>))))"

section \<open>Identity matching: the update of the list serializer\<close>

text \<open>
  A Python dict as an association list with distinct keys, in insertion order: assigning
  to a key that is present replaces its value in place.
\<close>

fun dict_set :: "('k \<times> 'v) list \<Rightarrow> 'k \<Rightarrow> 'v \<Rightarrow> ('k \<times> 'v) list" where
  "dict_set [] k v = [(k, v)]"
| "dict_set (p # ps) k v = (if fst p = k then (k, v) # ps else p # dict_set ps k v)"

definition dict_del :: "('k \<times> 'v) list \<Rightarrow> 'k \<Rightarrow> ('k \<times> 'v) list" where
  "dict_del d k = filter (\<lambda>p. fst p \<noteq> k) d"

fun hashable :: "pyval \<Rightarrow> bool" where
  "hashable (PList xs) = False"
| "hashable v = True"

fun isclass :: "pyval \<Rightarrow> bool" where
  "isclass PEmpty = True"
| "isclass v = False"

text \<open>
  The comprehension \<open>{i.pop(id_attr): i for i in all_validated_data}\<close>: \<open>pop\<close> raises
  \<open>KeyError\<close> on a dict without the key, and a list cannot be a dict key.
\<close>

fun by_id :: "string \<Rightarrow> validated list \<Rightarrow> (pyval \<times> validated) list
    \<Rightarrow> exn + (pyval \<times> validated) list" where
  "by_id a [] d = Inr d"
| "by_id a (i # rest) d =
     (case map_of i a of
        None \<Rightarrow> Inl (KeyError a)
      | Some k \<Rightarrow>
          if \<not> hashable k then Inl TypeError
          else by_id a rest (dict_set d k (dict_del i a)))"

text \<open>The operations applied to the entity store, in the order of the calls.\<close>

datatype operation =
    Created validated
  | Updated entity "validated option"
  | Deleted entity

definition invalid_message :: "string \<Rightarrow> errors" where
  "invalid_message m = ErrMsgs [\<lparr>message = m, code = ''invalid''\<rparr>]"

text \<open>
  The lookup values of \<open>queryset.filter(id__in=keys)\<close>: each key is converted to the
  type of the column, in the order of the dict; the first that cannot be converted
  raises.
\<close>

fun to_python_all :: "(pyval \<Rightarrow> exn + pyval) \<Rightarrow> pyval list \<Rightarrow> exn + pyval list" where
  "to_python_all to_python [] = Inr []"
| "to_python_all to_python (k # ks) =
     (case to_python k of
        Inl e \<Rightarrow> Inl e
      | Inr k' \<Rightarrow>
          (case to_python_all to_python ks of
             Inl e \<Rightarrow> Inl e
           | Inr ks' \<Rightarrow> Inr (k' # ks')))"

text \<open>
  \<open>BulkListSerializer.update\<close>: the result, and the calls of \<open>self.child.update\<close> it made.
  \<open>queryset.filter(id__in=keys)\<close> keeps the instances whose key is among the converted
  keys, while the dict stays keyed by the values as they came.
\<close>

definition update ::
  "child \<Rightarrow> string \<Rightarrow> entity list \<Rightarrow> validated list \<Rightarrow> (exn + entity list) \<times> operation list" where
  "update c a queryset all_validated_data =
     (case by_id a all_validated_data [] of
        Inl e \<Rightarrow> (Inl e, [])
      | Inr all_validated_data_by_id \<Rightarrow>
          if \<not> list_all (\<lambda>i. truthy i \<and> \<not> isclass i) (map fst all_validated_data_by_id)
          then (Inl (ValidationError (invalid_message [])), [])
          else
            (case to_python_all (key_to_python c) (map fst all_validated_data_by_id) of
               Inl e \<Rightarrow> (Inl e, [])
             | Inr keys \<Rightarrow>
                 (let objects_to_update = filter (\<lambda>e. key e \<in> set keys) queryset
                  in if length all_validated_data_by_id \<noteq> length objects_to_update
                     then (Inl (ValidationError
                                  (invalid_message ''Could not find all objects to update.'')), [])
                     else
                       (Inr (map (\<lambda>obj. child_update c obj
                                          (map_of all_validated_data_by_id (key obj)))
                               objects_to_update),
                        map (\<lambda>obj. Updated obj (map_of all_validated_data_by_id (key obj)))
                               objects_to_update))))"

text \<open>
  \<open>save\<close> of the framework's list serializer: \<open>validated_data\<close> asserts that \<open>is_valid\<close>
  has set it, and iterating over \<open>None\<close> raises; the instances come from \<open>update\<close> when
  the serializer has a queryset and from \<open>child.create\<close>, once per validated record, when
  it has none.
\<close>

definition save :: "child \<Rightarrow> serializer \<Rightarrow> (exn + entity list) \<times> serializer \<times> operation list" where
  "save c s =
     (case validated_data s of
        None \<Rightarrow> (Inl AssertionError, s, [])
      | Some NoData \<Rightarrow> (Inl TypeError, s, [])
      | Some (Records vd) \<Rightarrow>
          (case self_instance s of
             Some queryset \<Rightarrow>
               (case update c (id_attr s) queryset vd of
                  (Inl e, ops) \<Rightarrow> (Inl e, s, ops)
                | (Inr objs, ops) \<Rightarrow> (Inr objs, s\<lparr>self_instance := Some objs\<rparr>, ops))
           | None \<Rightarrow>
               (Inr (map (child_create c) vd),
                s\<lparr>self_instance := Some (map (child_create c) vd)\<rparr>,
                map Created vd)))"

section \<open>The view mixins\<close>

text \<open>One element of a multi-status payload, and the responses of the views.\<close>

record full_detail =
  detail_message :: string
  detail_code :: string

datatype row =
    Successful "repr option"
  | Failed "(string \<times> full_detail list) list"

datatype payload = Plain "repr list" | Multi "row list" | NoContent

datatype response = Response nat payload | SuperCreate

definition get_full_details :: "error_detail list \<Rightarrow> full_detail list" where
  "get_full_details error_list =
     map (\<lambda>e. \<lparr>detail_message = message e, detail_code = code e\<rparr>) error_list"

text \<open>
  What iterating over \<open>errors\<close> yields: the error dicts of a list, the keys of a dict, the
  messages of a list of error details (the last two are strings).
\<close>

datatype element = ElemDict detail | ElemStr string

fun elements :: "errors \<Rightarrow> element list" where
  "elements (ErrRows rs) = map ElemDict rs"
| "elements (ErrDict d) = map (\<lambda>p. ElemStr (fst p)) d"
| "elements (ErrMsgs ms) = map (\<lambda>m. ElemStr (message m)) ms"

text \<open>
  The loop of \<open>build_multi_status_response\<close>; \<open>data.pop(0)\<close> takes the head of \<open>data\<close>
  (\<open>dat\<close> here).
  A non-empty string has no \<open>items\<close>.
\<close>

fun build_rows :: "repr list \<Rightarrow> element list \<Rightarrow> row list \<Rightarrow> exn + row list" where
  "build_rows dat [] resp = Inr resp"
| "build_rows dat (ElemDict d # es) resp =
     (if d \<noteq> [] then
        build_rows dat es (resp @ [Failed (map (\<lambda>(k, error_list). (k, get_full_details error_list)) d)])
      else
        (case dat of
           [] \<Rightarrow> build_rows [] es (resp @ [Successful None])
         | r # rest \<Rightarrow> build_rows rest es (resp @ [Successful (Some r)])))"
| "build_rows dat (ElemStr x # es) resp =
     (if x \<noteq> [] then Inl AttributeError
      else
        (case dat of
           [] \<Rightarrow> build_rows [] es (resp @ [Successful None])
         | r # rest \<Rightarrow> build_rows rest es (resp @ [Successful (Some r)])))"

definition build_multi_status_response :: "repr list \<Rightarrow> errors \<Rightarrow> exn + row list" where
  "build_multi_status_response dat errs = build_rows dat (elements errs) []"

text \<open>
  \<open>get_serializer(instance, data=request.data, many=True)\<close>: a serializer with the view's
  configuration \<open>s0\<close> on which nothing has been computed yet.
\<close>

definition get_serializer :: "serializer \<Rightarrow> entity list option \<Rightarrow> body \<Rightarrow> serializer" where
  "get_serializer s0 inst d =
     s0\<lparr>initial_data := Some d, self_instance := inst, validated_data := None,
        errors := None, data_cache := None\<rparr>"

text \<open>
  The part that \<open>create\<close> and \<open>bulk_update\<close> share after the errors are taken and reset:
  save, then answer with a multi-status payload when there were errors and with the plain
  list and the status \<open>ok\<close> otherwise.
\<close>

definition save_and_respond ::
  "child \<Rightarrow> nat \<Rightarrow> errors \<Rightarrow> serializer \<Rightarrow> (exn + response) \<times> operation list" where
  "save_and_respond c ok errs s =
     (case save c s of
        (Inl e, s', ops) \<Rightarrow> (Inl e, ops)
      | (Inr objs, s', ops) \<Rightarrow>
          (case data c s' of
             (Inl e, s'') \<Rightarrow> (Inl e, ops)
           | (Inr d, s'') \<Rightarrow>
               if truthy_errors errs then
                 (case build_multi_status_response d errs of
                    Inl e \<Rightarrow> (Inl e, ops)
                  | Inr rows \<Rightarrow> (Inr (Response 207 (Multi rows)), ops))
               else (Inr (Response ok (Plain d)), ops)))"

text \<open>
  The errors a view takes from the serializer: \<open>[]\<close> unless \<open>serializer.errors\<close> is true, in
  which case \<open>_errors\<close> is reset to \<open>[]\<close>.
\<close>

definition take_errors :: "serializer \<Rightarrow> exn + (errors \<times> serializer)" where
  "take_errors s =
     (case errors_property s of
        Inl e \<Rightarrow> Inl e
      | Inr e \<Rightarrow>
          if truthy_errors e then Inr (e, s\<lparr>errors := Some (ErrRows [])\<rparr>)
          else Inr (ErrRows [], s))"

text \<open>\<open>EasyBulkCreateModelMixin.create\<close>; a body that is not a list goes to the base class.\<close>

definition create :: "child \<Rightarrow> serializer \<Rightarrow> body \<Rightarrow> (exn + response) \<times> operation list" where
  "create c s0 request_data =
     (case request_data of
        BodyList items \<Rightarrow>
          (case is_valid c False (get_serializer s0 None request_data) of
             (Inl e, s) \<Rightarrow> (Inl e, [])
           | (Inr b, s) \<Rightarrow>
               (case take_errors s of
                  Inl e \<Rightarrow> (Inl e, [])
                | Inr (errs, s') \<Rightarrow> save_and_respond c 201 errs s'))
      | _ \<Rightarrow> (Inr SuperCreate, []))"

text \<open>
  The test \<open>isinstance(errors, dict) and errors.get('non_field_errors')[0].code ==
  'not_a_list'\<close> of \<open>bulk_update\<close>: indexing \<open>None\<close> or an empty list raises.
\<close>

definition not_a_list_check :: "errors \<Rightarrow> exn + error_detail option" where
  "not_a_list_check errs =
     (case errs of
        ErrDict d \<Rightarrow>
          (case map_of d ''non_field_errors'' of
             None \<Rightarrow> Inl TypeError
           | Some [] \<Rightarrow> Inl IndexError
           | Some (e # es) \<Rightarrow> if code e = ''not_a_list'' then Inr (Some e) else Inr None)
      | _ \<Rightarrow> Inr None)"

text \<open>
  \<open>EasyBulkUpdateModelMixin.bulk_update\<close>; \<open>queryset\<close> is
  \<open>self.filter_queryset(self.get_queryset())\<close>.
\<close>

definition bulk_update ::
  "child \<Rightarrow> serializer \<Rightarrow> entity list \<Rightarrow> body \<Rightarrow> (exn + response) \<times> operation list" where
  "bulk_update c s0 queryset request_data =
     (case is_valid c False (get_serializer s0 (Some queryset) request_data) of
        (Inl e, s) \<Rightarrow> (Inl e, [])
      | (Inr b, s) \<Rightarrow>
          (case take_errors s of
             Inl e \<Rightarrow> (Inl e, [])
           | Inr (errs, s') \<Rightarrow>
               (case not_a_list_check errs of
                  Inl e \<Rightarrow> (Inl e, [])
                | Inr (Some e) \<Rightarrow> (Inl (ValidationError (ErrMsgs [e])), [])
                | Inr None \<Rightarrow> save_and_respond c 200 errs s')))"

section \<open>Bulk destroy\<close>

text \<open>
  A queryset object: \<open>ident\<close> is the identity of the object (its address), so that the
  test \<open>a is b\<close> is \<open>ident a = ident b\<close>; \<open>rows\<close> are the instances it yields.
\<close>

record queryset =
  ident :: nat
  rows :: "entity list"

text \<open>The view: its queryset and its filter backends, both the application's.\<close>

record view =
  get_queryset :: queryset
  filter_queryset :: "queryset \<Rightarrow> queryset"

definition allow_bulk_destroy :: "queryset \<Rightarrow> queryset \<Rightarrow> bool" where
  "allow_bulk_destroy qs filtered = (ident qs \<noteq> ident filtered)"

text \<open>\<open>perform_bulk_destroy\<close>: one \<open>delete\<close> per instance of the queryset.\<close>

definition perform_bulk_destroy :: "entity list \<Rightarrow> operation list" where
  "perform_bulk_destroy objects = map Deleted objects"

text \<open>\<open>BulkDestroyModelMixin.bulk_destroy\<close>: the response and the deletions made.\<close>

definition bulk_destroy :: "view \<Rightarrow> response \<times> operation list" where
  "bulk_destroy v =
     (let qs = get_queryset v;
          filtered = filter_queryset v qs
      in if \<not> allow_bulk_destroy qs filtered then (Response 400 NoContent, [])
         else (Response 204 NoContent, perform_bulk_destroy (rows filtered)))"

text \<open>
  A Python \<open>str\<close> is a sequence of Unicode code points.  \<open>decimal\<close>, a parameter, is the
  table of the decimal digits of Unicode (the category \<open>Nd\<close>): the value of a code point
  that is one, \<open>None\<close> for any other.  On a \<open>str\<close> pattern \<open>\d\<close> matches exactly these.
  The query parameter \<open>ids\<close> is modelled this way because the pattern and \<open>int\<close> read
  its code points.
\<close>

type_synonym pystr = "nat list"

definition is_digit :: "(nat \<Rightarrow> nat option) \<Rightarrow> nat \<Rightarrow> bool" where
  "is_digit decimal ch = (decimal ch \<noteq> None)"

text \<open>
  The pattern \<open>^\d+(,\d+)*$\<close> under \<open>re.match\<close>, as the automaton that reads it: at the
  start and after a comma (code point 44) a digit must come; after a digit may come a
  digit, a comma, or the end, and \<open>$\<close> also matches before a newline (code point 10) that
  ends the string.
\<close>

datatype position = AtStart | AfterDigit

fun matches_from :: "(nat \<Rightarrow> nat option) \<Rightarrow> position \<Rightarrow> pystr \<Rightarrow> bool" where
  "matches_from decimal AtStart [] = False"
| "matches_from decimal AtStart (ch # rest) =
     (is_digit decimal ch \<and> matches_from decimal AfterDigit rest)"
| "matches_from decimal AfterDigit [] = True"
| "matches_from decimal AfterDigit (ch # rest) =
     ((is_digit decimal ch \<and> matches_from decimal AfterDigit rest)
      \<or> (ch = 44 \<and> matches_from decimal AtStart rest)
      \<or> (ch = 10 \<and> rest = []))"

definition ids_match :: "(nat \<Rightarrow> nat option) \<Rightarrow> pystr \<Rightarrow> bool" where
  "ids_match decimal s = matches_from decimal AtStart s"

text \<open>\<open>ids.split(',')\<close>.\<close>

fun split_comma :: "pystr \<Rightarrow> pystr \<Rightarrow> pystr list" where
  "split_comma [] cur = [cur]"
| "split_comma (ch # rest) cur =
     (if ch = 44 then cur # split_comma rest [] else split_comma rest (cur @ [ch]))"

definition split :: "pystr \<Rightarrow> pystr list" where
  "split s = split_comma s []"

text \<open>
  The lookup \<open>id__in\<close> on an integer key converts each string with \<open>int\<close>, which reads
  the decimal digits and ignores the white space around them; on the strings that the
  pattern lets through it does not raise.
\<close>

definition int_of_string :: "(nat \<Rightarrow> nat option) \<Rightarrow> pystr \<Rightarrow> int" where
  "int_of_string decimal s =
     foldl (\<lambda>n ch. case decimal ch of None \<Rightarrow> n | Some d \<Rightarrow> 10 * n + int d) 0 s"

text \<open>\<open>queryset.filter(id__in=list_id)\<close> on an integer key: a new queryset object.\<close>

definition filter_id_in :: "(nat \<Rightarrow> nat option) \<Rightarrow> pystr list \<Rightarrow> queryset \<Rightarrow> queryset" where
  "filter_id_in decimal list_id qs =
     \<lparr>ident = Suc (ident qs),
      rows = filter (\<lambda>e. key e \<in> set (map (\<lambda>s. PInt (int_of_string decimal s)) list_id))
               (rows qs)\<rparr>"

text \<open>
  \<open>EasyBulkDestroyModelMixin.bulk_destroy\<close>; \<open>ids\<close> is the query parameter, \<open>None\<close> when
  the request has none.
\<close>

definition easy_bulk_destroy ::
  "(nat \<Rightarrow> nat option) \<Rightarrow> view \<Rightarrow> pystr option \<Rightarrow> (exn + response) \<times> operation list" where
  "easy_bulk_destroy decimal v ids =
     (case (case ids of
              None \<Rightarrow> Inr []
            | Some s \<Rightarrow>
                if s \<noteq> [] then
                  (if \<not> ids_match decimal s then Inl (ParseError ''Invalid ids'')
                   else Inr (split s))
                else Inr []) of
        Inl e \<Rightarrow> (Inl e, [])
      | Inr list_id \<Rightarrow>
          (let qs = filter_id_in decimal list_id (get_queryset v);
               filtered = filter_queryset v qs
           in if \<not> allow_bulk_destroy qs filtered then (Inr (Response 400 NoContent), [])
              else (Inr (Response 204 NoContent), perform_bulk_destroy (rows filtered))))"

section \<open>The bulk serializer mixin of the child\<close>

text \<open>
  \<open>BulkSerializerMixin.to_internal_value\<close>: \<open>super_to_internal_value\<close> is the method of the
  base class, \<open>bulk_root\<close> says whether the root serializer is a \<open>BulkListSerializer\<close>, and
  \<open>a\<close> is \<open>Meta.update_lookup_field\<close>.  On \<open>PUT\<close> and \<open>PATCH\<close> the raw value of the
  lookup field is put back into the validated data; \<open>get_value\<close> gives the class
  \<open>empty\<close> when the record has no such key.
\<close>

definition mixin_to_internal_value ::
  "(item \<Rightarrow> detail + validated) \<Rightarrow> bool \<Rightarrow> string \<Rightarrow> string \<Rightarrow> item \<Rightarrow> detail + validated" where
  "mixin_to_internal_value super_to_internal_value bulk_root a request_method it =
     (case super_to_internal_value it of
        Inl d \<Rightarrow> Inl d
      | Inr ret \<Rightarrow>
          if bulk_root \<and> a \<noteq> [] \<and> request_method \<in> {''PUT'', ''PATCH''}
          then Inr (dict_set ret a (case map_of it a of None \<Rightarrow> PEmpty | Some v \<Rightarrow> v))
          else Inr ret)"

section \<open>Notions used to state the properties\<close>

text \<open>What one record contributes to \<open>ret\<close> and to \<open>errors\<close>, and whether it stops the loop.\<close>

fun outcome_values :: "outcome \<Rightarrow> validated list" where
  "outcome_values (Valid v) = [v]"
| "outcome_values (Invalid d) = []"
| "outcome_values (Abort e) = []"

fun outcome_detail :: "outcome \<Rightarrow> detail" where
  "outcome_detail (Valid v) = []"
| "outcome_detail (Invalid d) = d"
| "outcome_detail (Abort e) = []"

fun is_abort :: "outcome \<Rightarrow> bool" where
  "is_abort (Abort e) = True"
| "is_abort (Valid v) = False"
| "is_abort (Invalid d) = False"

fun is_invalid :: "outcome \<Rightarrow> bool" where
  "is_invalid (Invalid d) = True"
| "is_invalid (Valid v) = False"
| "is_invalid (Abort e) = False"

text \<open>
  The lookup of a record resolves: no lookup is made (no view, or the action \<open>create\<close>),
  or the record has no key, or its key can be converted and the queryset holds exactly
  one instance with the converted key.
\<close>

definition lookup_resolves :: "child \<Rightarrow> serializer \<Rightarrow> item \<Rightarrow> bool" where
  "lookup_resolves c s it =
     (if view_action s \<noteq> None \<and> view_action s \<noteq> Some ''create'' then
        (case map_of it (id_attr s) of
           None \<Rightarrow> True
         | Some k \<Rightarrow>
             (case self_instance s of
                None \<Rightarrow> False
              | Some qs \<Rightarrow>
                  (case key_to_python c k of
                     Inl e \<Rightarrow> False
                   | Inr k' \<Rightarrow> length (filter (\<lambda>e. key e = k') qs) = 1)))
      else True)"

text \<open>
  The converted lookup values of a list of keys, those that cannot be converted left
  out.
\<close>

definition converted :: "child \<Rightarrow> pyval list \<Rightarrow> pyval list" where
  "converted c ks =
     concat (map (\<lambda>k. case key_to_python c k of Inl e \<Rightarrow> [] | Inr k' \<Rightarrow> [k']) ks)"

text \<open>
  The lookup key and the remaining attributes of each validated record that has the
  key, in the order of the records.
\<close>

definition entries :: "string \<Rightarrow> validated list \<Rightarrow> (pyval \<times> validated) list" where
  "entries a vd =
     concat (map (\<lambda>i. case map_of i a of None \<Rightarrow> [] | Some k \<Rightarrow> [(k, dict_del i a)]) vd)"

text \<open>
  For a bulk create, where the child is bound to no instance: the validated values of
  the records that pass validation, in order; the error dict of a record, empty when it
  passes; the representation of the instance
  created from a validated value; and the element of the multi-status payload that the
  specification gives for one record, a failure with the full details of its errors or
  a success with the representation of the instance created from it.
\<close>

definition accepted_values :: "child \<Rightarrow> item list \<Rightarrow> validated list" where
  "accepted_values c L =
     concat (map (\<lambda>it. case child_run_validation c None it of Inl d \<Rightarrow> [] | Inr v \<Rightarrow> [v]) L)"

definition record_detail :: "child \<Rightarrow> item \<Rightarrow> detail" where
  "record_detail c it = (case child_run_validation c None it of Inl d \<Rightarrow> d | Inr v \<Rightarrow> [])"

definition created_representation :: "child \<Rightarrow> validated \<Rightarrow> repr" where
  "created_representation c v = child_to_representation c (child_create c v)"

definition expected_row :: "child \<Rightarrow> item \<Rightarrow> row" where
  "expected_row c it =
     (case child_run_validation c None it of
        Inl d \<Rightarrow> Failed (map (\<lambda>(k, error_list). (k, get_full_details error_list)) d)
      | Inr v \<Rightarrow> Successful (Some (created_representation c v)))"

section \<open>A sample resource\<close>

text \<open>
  A child serializer with one required, non-blank string field \<open>name\<close>, under the bulk
  mixin on a \<open>PUT\<close> request with the lookup field \<open>id\<close>, an integer column: a lookup
  value that is an integer, or a string of ASCII digits, is converted to the integer,
  \<open>None\<close> stays, and the rest raise.
\<close>

definition int_key :: "pyval \<Rightarrow> exn + pyval" where
  "int_key k =
     (case k of
        PInt n \<Rightarrow> Inr (PInt n)
      | PStr s \<Rightarrow>
          if s \<noteq> [] \<and> list_all (\<lambda>ch. ch \<in> set ''0123456789'') s
          then Inr (PInt (foldl (\<lambda>n ch. 10 * n + (int (of_char ch) - 48)) 0 s))
          else Inl ValueError
      | PNone \<Rightarrow> Inr PNone
      | _ \<Rightarrow> Inl TypeError)"

definition field_error :: "string \<Rightarrow> string \<Rightarrow> string \<Rightarrow> detail" where
  "field_error f m cd = [(f, [\<lparr>message = m, code = cd\<rparr>])]"

definition name_to_internal_value :: "item \<Rightarrow> detail + validated" where
  "name_to_internal_value it =
     (case map_of it ''name'' of
        None \<Rightarrow> Inl (field_error ''name'' ''This field is required.'' ''required'')
      | Some (PStr n) \<Rightarrow>
          if n = [] then Inl (field_error ''name'' ''This field may not be blank.'' ''blank'')
          else Inr [(''name'', PStr n)]
      | Some v \<Rightarrow> Inl (field_error ''name'' ''Not a valid string.'' ''invalid''))"

definition sample_child :: child where
  "sample_child =
     \<lparr>child_run_validation =
        (\<lambda>inst. mixin_to_internal_value name_to_internal_value True ''id'' ''PUT''),
      child_create = (\<lambda>v. \<lparr>key = PNone, attrs = dict_del v ''id''\<rparr>),
      child_update = (\<lambda>obj v. obj\<lparr>attrs := (case v of None \<Rightarrow> attrs obj | Some w \<Rightarrow> w)\<rparr>),
      child_to_representation = (\<lambda>obj. (''id'', key obj) # attrs obj),
      child_represent_dict = (\<lambda>v. v),
      list_validate = Inr,
      get_initial = (\<lambda>b. []),
      key_to_python = int_key\<rparr>"

text \<open>The same child on a \<open>POST\<close> request, where the mixin adds nothing.\<close>

definition sample_create_child :: child where
  "sample_create_child =
     sample_child\<lparr>child_run_validation :=
        (\<lambda>inst. mixin_to_internal_value name_to_internal_value True ''id'' ''POST'')\<rparr>"

definition sample_serializer :: "string option \<Rightarrow> serializer" where
  "sample_serializer action =
     \<lparr>view_action = action, id_attr = ''id'', allow_empty = True, allow_null = False,
      has_parent = False,
      partial = False, allow_errors = True, initial_data = None, self_instance = None,
      validated_data = None, errors = None, data_cache = None\<rparr>"

definition named :: "int \<Rightarrow> string \<Rightarrow> entity" where
  "named n nm = \<lparr>key = PInt n, attrs = [(''name'', PStr nm)]\<rparr>"

text \<open>
  A view over three instances whose filter backend hides the instance 3 and, as filter
  backends do, returns a new queryset object.
\<close>

definition sample_view :: view where
  "sample_view =
     \<lparr>get_queryset = \<lparr>ident = 0, rows = [named 1 ''a'', named 2 ''b'', named 3 ''c'']\<rparr>,
      filter_queryset =
        (\<lambda>qs. \<lparr>ident = Suc (ident qs), rows = filter (\<lambda>e. key e \<noteq> PInt 3) (rows qs)\<rparr>)\<rparr>"

text \<open>
  A part of the table of decimal digits: the ASCII digits (code points 48 to 57) and the
  Arabic-Indic digits (1632 to 1641).
\<close>

definition sample_decimal :: "nat \<Rightarrow> nat option" where
  "sample_decimal ch =
     (if 48 \<le> ch \<and> ch \<le> 57 then Some (ch - 48)
      else if 1632 \<le> ch \<and> ch \<le> 1641 then Some (ch - 1632)
      else None)"

text \<open>The code points of an ASCII string.\<close>

definition ascii :: "string \<Rightarrow> pystr" where
  "ascii s = map of_char s"


section \<open>Properties of the list serializer\<close>

subsection \<open>Representation filtering\<close>

lemma set_error_positions_rows:
  "set (error_positions (ErrRows es)) = {i. i < length es \<and> es ! i \<noteq> []}"
proof -
  have "\<And>n. fst ` {p \<in> set (enumerate n (map (\<lambda>d. d \<noteq> []) es)). snd p}
            = {i. n \<le> i \<and> i < n + length es \<and> es ! (i - n) \<noteq> []}"
  proof (induction es)
    case Nil
    show ?case by simp
  next
    case (Cons e es)
    have "fst ` {p \<in> set (enumerate n (map (\<lambda>d. d \<noteq> []) (e # es))). snd p}
          = (if e \<noteq> [] then {n} else {})
              \<union> fst ` {p \<in> set (enumerate (Suc n) (map (\<lambda>d. d \<noteq> []) es)). snd p}"
      by force
    also have "\<dots> = {i. n \<le> i \<and> i < n + length (e # es) \<and> (e # es) ! (i - n) \<noteq> []}"
      unfolding Cons.IH by (auto simp: nth_Cons' Suc_diff_Suc less_Suc_eq_le)
    finally show ?case .
  qed
  from this[of 0] show ?thesis by (simp add: error_positions_def)
qed

lemma keep_positions_nths:
  "map snd (filter (\<lambda>(i, v). i \<notin> A) (enumerate n xs)) = nths xs {i. i + n \<notin> A}"
proof (induction xs arbitrary: n)
  case Nil
  show ?case by simp
next
  case (Cons x xs)
  have "{j. Suc j \<in> {i. i + n \<notin> A}} = {i. i + Suc n \<notin> A}" by simp
  with Cons[of "Suc n"] show ?case by (simp add: nths_Cons)
qed

text \<open>
  What \<open>to_representation\<close> does with the list it is given: with the per-record error
  list \<open>es\<close> in \<open>_errors\<close> it renders the objects at the positions of that list where \<open>es\<close>
  has no error.
\<close>

lemma to_representation_positions:
  "to_representation rep (s\<lparr>errors := Some (ErrRows es)\<rparr>) objs =
     map rep (nths objs (- {i. i < length es \<and> es ! i \<noteq> []}))"
proof -
  have "- {i. i < length es \<and> es ! i \<noteq> []} = {i. i + 0 \<notin> set (error_positions (ErrRows es))}"
    by (simp add: set_error_positions_rows Compl_eq)
  then show ?thesis
    by (simp add: to_representation_def keep_positions_nths)
qed

text \<open>
  Claim C4 at the records valid, blank name, valid, validated without
  \<open>raise_exception\<close>: the validated data hold the first and the third record, the error
  list marks the position 1 of the input, and the property \<open>data\<close> applies that position
  to the list of the two validated records, so that it renders the first record only.
  The third record is valid and is not rendered.
\<close>

theorem data_drops_valid_record:
  "validated_data (snd (is_valid sample_create_child False
       (get_serializer (sample_serializer (Some ''create'')) None
          (BodyList [[(''name'', PStr ''a'')], [(''name'', PStr [])], [(''name'', PStr ''c'')]]))))
     = Some (Records [[(''name'', PStr ''a'')], [(''name'', PStr ''c'')]])
   \<and> errors (snd (is_valid sample_create_child False
       (get_serializer (sample_serializer (Some ''create'')) None
          (BodyList [[(''name'', PStr ''a'')], [(''name'', PStr [])], [(''name'', PStr ''c'')]]))))
     = Some (ErrRows [[], field_error ''name'' ''This field may not be blank.'' ''blank'', []])
   \<and> fst (data sample_create_child (snd (is_valid sample_create_child False
       (get_serializer (sample_serializer (Some ''create'')) None
          (BodyList [[(''name'', PStr ''a'')], [(''name'', PStr [])], [(''name'', PStr ''c'')]])))))
     = Inr [[(''name'', PStr ''a'')]]"
  by code_simp

text \<open>What is rendered, taken from the statement above: one record, where two are valid.\<close>

theorem data_drops_valid_record_witness:
  "fst (data sample_create_child (snd (is_valid sample_create_child False
       (get_serializer (sample_serializer (Some ''create'')) None
          (BodyList [[(''name'', PStr ''a'')], [(''name'', PStr [])], [(''name'', PStr ''c'')]])))))
     = Inr [[(''name'', PStr ''a'')]]"
  using data_drops_valid_record by blast

subsection \<open>Tolerant validation\<close>

lemma lookup_resolves_iff: "lookup_resolves c s it \<longleftrightarrow> \<not> is_abort (try_item c s it)"
  by (auto simp: lookup_resolves_def try_item_def qs_get_def
           split: option.splits list.splits sum.splits)

lemma validate_items_complete:
  "\<forall>it \<in> set L. \<not> is_abort (try_item c s it) \<Longrightarrow>
   validate_items c s L ret errs =
     Inr (ret @ concat (map (\<lambda>it. outcome_values (try_item c s it)) L),
          errs @ map (\<lambda>it. outcome_detail (try_item c s it)) L)"
proof (induction L arbitrary: ret errs)
  case Nil
  show ?case by simp
next
  case (Cons it L)
  then show ?case by (cases "try_item c s it") simp_all
qed

lemma length_valid_values:
  "length (concat (map (\<lambda>it. outcome_values (try_item c s it)) L))
     = length L - length (filter (\<lambda>it. is_invalid (try_item c s it)) L)"
  if "\<forall>it \<in> set L. \<not> is_abort (try_item c s it)"
  using that
proof (induction L)
  case Nil
  show ?case by simp
next
  case (Cons it L)
  have "length (filter (\<lambda>it. is_invalid (try_item c s it)) L) \<le> length L" by simp
  with Cons show ?case by (cases "try_item c s it") (auto simp: Suc_diff_le)
qed

text \<open>
  Claim C2, as amended.  For a list \<open>L\<close> that passes the shape checks (it is not empty,
  or empty lists are allowed) and whose records' lookups all resolve (always so without
  a view or under the action \<open>create\<close>; in an update, when the record has no key or its
  key, converted, names exactly one instance of the queryset), tolerant validation returns, its error list has
  the length of \<open>L\<close>, and the entry at index \<open>i\<close> is the error detail of record \<open>L ! i\<close>
  when that record failed validation and the empty dict otherwise; so the entry is
  non-empty exactly when record \<open>i\<close> failed validation with a non-empty detail.
\<close>

theorem tolerant_validation_aligned:
  assumes "allow_empty s \<or> L \<noteq> []"
    and "\<forall>it \<in> set L. lookup_resolves c s it"
  shows "\<exists>ret errs. to_internal_value c s (BodyList L) = Inr (ret, errs)
           \<and> length errs = length L
           \<and> (\<forall>i < length L. errs ! i = outcome_detail (try_item c s (L ! i)))
           \<and> (\<forall>i < length L. errs ! i \<noteq> [] \<longleftrightarrow>
                  (\<exists>d. try_item c s (L ! i) = Invalid d \<and> d \<noteq> []))"
proof -
  from assms(2) have na: "\<forall>it \<in> set L. \<not> is_abort (try_item c s it)"
    by (simp add: lookup_resolves_iff)
  let ?errs = "map (\<lambda>it. outcome_detail (try_item c s it)) L"
  let ?ret = "concat (map (\<lambda>it. outcome_values (try_item c s it)) L)"
  from assms(1) have "to_internal_value c s (BodyList L) = validate_items c s L [] []"
    by (auto simp: to_internal_value_def)
  with validate_items_complete[OF na, of "[]" "[]"]
  have r: "to_internal_value c s (BodyList L) = Inr (?ret, ?errs)" by simp
  have "\<forall>i < length L. ?errs ! i \<noteq> [] \<longleftrightarrow> (\<exists>d. try_item c s (L ! i) = Invalid d \<and> d \<noteq> [])"
  proof (intro allI impI)
    fix i assume "i < length L"
    then show "?errs ! i \<noteq> [] \<longleftrightarrow> (\<exists>d. try_item c s (L ! i) = Invalid d \<and> d \<noteq> [])"
      by (cases "try_item c s (L ! i)") simp_all
  qed
  with r show ?thesis by simp
qed

text \<open>
  The amended claim at an update of three records against a queryset holding the
  instance 1: a valid record, a record without key, a record with a blank name.
\<close>

theorem tolerant_validation_aligned_witness:
  "\<exists>ret errs.
     to_internal_value sample_child
       ((sample_serializer (Some ''update''))\<lparr>self_instance := Some [named 1 ''a'']\<rparr>)
       (BodyList [[(''id'', PInt 1), (''name'', PStr ''x'')], [(''name'', PStr ''y'')],
                  [(''id'', PInt 1), (''name'', PStr [])]]) = Inr (ret, errs)
     \<and> length errs = 3
     \<and> errs ! 0 = [] \<and> errs ! 1 = required_error ''id''
     \<and> errs ! 2 = field_error ''name'' ''This field may not be blank.'' ''blank''"
proof -
  let ?s = "(sample_serializer (Some ''update''))\<lparr>self_instance := Some [named 1 ''a'']\<rparr>"
  let ?L = "[[(''id'', PInt 1), (''name'', PStr ''x'')], [(''name'', PStr ''y'')],
             [(''id'', PInt 1), (''name'', PStr [])]]"
  have h1: "allow_empty ?s \<or> ?L \<noteq> []" by simp
  have h2: "\<forall>it \<in> set ?L. lookup_resolves sample_child ?s it"
    by (simp add: lookup_resolves_def sample_serializer_def named_def sample_child_def int_key_def)
  from tolerant_validation_aligned [OF h1 h2]
  obtain ret errs where r: "to_internal_value sample_child ?s (BodyList ?L) = Inr (ret, errs)"
    and n: "length errs = length ?L"
    and e: "\<forall>i < length ?L. errs ! i = outcome_detail (try_item sample_child ?s (?L ! i))"
    by blast
  have t0: "outcome_detail (try_item sample_child ?s (?L ! 0)) = []" by code_simp
  have t1: "outcome_detail (try_item sample_child ?s (?L ! 1)) = required_error ''id''"
    by code_simp
  have t2: "outcome_detail (try_item sample_child ?s (?L ! 2))
              = field_error ''name'' ''This field may not be blank.'' ''blank''"
    by code_simp
  have "errs ! 0 = []" using e [rule_format, of 0] t0 by simp
  moreover have "errs ! 1 = required_error ''id''" using e [rule_format, of 1] t1 by simp
  moreover have "errs ! 2 = field_error ''name'' ''This field may not be blank.'' ''blank''"
    using e [rule_format, of 2] t2 by simp
  ultimately show ?thesis using r n by simp
qed

text \<open>
  Claim C2 as stated fails: the empty list, when empty lists are not allowed, is
  rejected as a whole, and an update whose record names a key that the queryset does not
  hold leaves the loop with the lookup's exception; neither gives an error list.
\<close>

theorem no_outcome_set_counterexample:
  "to_internal_value sample_child ((sample_serializer None)\<lparr>allow_empty := False\<rparr>) (BodyList [])
     = Inl (ValidationError empty_error)
   \<and> to_internal_value sample_child
       ((sample_serializer (Some ''update''))\<lparr>self_instance := Some [named 1 ''a'']\<rparr>)
       (BodyList [[(''id'', PInt 7), (''name'', PStr ''y'')]]) = Inl DoesNotExist"
  by code_simp

text \<open>
  Claim C3 at an update of three records against a queryset holding the instance 1
  only: the second record names the key 2, the lookup raises \<open>DoesNotExist\<close>, which the
  loop does not catch, so that the third record is never visited, no validated value is
  returned, and \<open>bulk_update\<close> ends with that exception.
\<close>

theorem unknown_key_aborts_validation:
  "to_internal_value sample_child
       ((sample_serializer (Some ''update''))\<lparr>self_instance := Some [named 1 ''a'']\<rparr>)
       (BodyList [[(''id'', PInt 1), (''name'', PStr ''x'')],
                  [(''id'', PInt 2), (''name'', PStr ''y'')],
                  [(''name'', PStr ''z'')]]) = Inl DoesNotExist
   \<and> bulk_update sample_child (sample_serializer (Some ''update'')) [named 1 ''a'']
       (BodyList [[(''id'', PInt 1), (''name'', PStr ''x'')],
                  [(''id'', PInt 2), (''name'', PStr ''y'')],
                  [(''name'', PStr ''z'')]]) = (Inl DoesNotExist, [])"
  by code_simp

subsection \<open>Shape-level errors\<close>

lemma run_validation_not_a_list:
  "run_validation c s (BodyOther t) = Inl (ValidationError (not_a_list_error t))"
  by (simp add: run_validation_def validate_empty_values_def to_internal_value_def)

text \<open>
  Claim C10.  On a serializer with initial data on which validation has not run, when
  \<open>run_validation\<close> itself raises a validation error with a (non-empty) detail \<open>d\<close>,
  \<open>is_valid\<close> without \<open>raise_exception\<close> returns \<open>False\<close> and records \<open>d\<close> in \<open>_errors\<close>,
  \<open>_validated_data\<close> stays unset, and the property \<open>data\<close> then raises the assertion
  error.
\<close>

theorem shape_error_leaves_data_unusable:
  assumes "initial_data s = Some b"
    and "validated_data s = None"
    and "run_validation c s b = Inl (ValidationError d)"
    and "truthy_errors d"
  shows "is_valid c False s = (Inr False, s\<lparr>errors := Some d\<rparr>)
       \<and> validated_data (snd (is_valid c False s)) = None
       \<and> fst (data c (snd (is_valid c False s))) = Inl AssertionError"
  using assms by (simp add: is_valid_def handle_def data_def)

text \<open>The same for a body that is a JSON object, on a fresh serializer.\<close>

theorem shape_error_leaves_data_unusable_witness:
  "is_valid sample_child False (get_serializer (sample_serializer None) None (BodyOther ''dict''))
     = (Inr False,
        (get_serializer (sample_serializer None) None (BodyOther ''dict''))
          \<lparr>errors := Some (not_a_list_error ''dict'')\<rparr>)
   \<and> fst (data sample_child
        (snd (is_valid sample_child False
               (get_serializer (sample_serializer None) None (BodyOther ''dict'')))))
     = Inl AssertionError"
proof -
  let ?s = "get_serializer (sample_serializer None) None (BodyOther ''dict'')"
  have h1: "initial_data ?s = Some (BodyOther ''dict'')" by (simp add: get_serializer_def)
  have h2: "validated_data ?s = None" by (simp add: get_serializer_def)
  have h3: "run_validation sample_child ?s (BodyOther ''dict'')
              = Inl (ValidationError (not_a_list_error ''dict''))"
    by (rule run_validation_not_a_list)
  have h4: "truthy_errors (not_a_list_error ''dict'')" by (simp add: not_a_list_error_def)
  from shape_error_leaves_data_unusable [OF h1 h2 h3 h4] show ?thesis by blast
qed

section \<open>Properties of the views\<close>



text \<open>
  A null body is not such a case: with \<open>allow_null\<close> off its error is the \<open>null\<close> error,
  the test for \<open>not_a_list\<close> fails, and \<open>save\<close> finds no validated data.
\<close>

lemma null_body_in_bulk_update:
  "\<not> allow_null s0 \<Longrightarrow> bulk_update c s0 queryset BodyNull = (Inl AssertionError, [])"
  by (simp add: bulk_update_def is_valid_def get_serializer_def run_validation_def
        validate_empty_values_def handle_def null_error_def take_errors_def errors_property_def
        not_a_list_check_def save_and_respond_def save_def)

text \<open>
  Claim C7.  \<open>bulk_destroy\<close> answers 400 and deletes nothing when the filtered queryset
  is the very object that \<open>get_queryset\<close> returned; when the filter returns another
  object it deletes every instance of the filtered queryset, in order, and answers 204.
\<close>

theorem bulk_destroy_scope_guard:
  "bulk_destroy v =
     (if ident (filter_queryset v (get_queryset v)) = ident (get_queryset v)
      then (Response 400 NoContent, [])
      else (Response 204 NoContent, map Deleted (rows (filter_queryset v (get_queryset v)))))"
  by (simp add: bulk_destroy_def allow_bulk_destroy_def perform_bulk_destroy_def Let_def)

subsection \<open>Destroy by identifiers\<close>

text \<open>
  When neither the comma nor the newline is a decimal digit, as in Unicode, every string
  that the pattern lets through splits at the commas into non-empty strings of decimal
  digits, the last one possibly followed by a newline: these are the strings that
  \<open>int\<close> reads.
\<close>

lemma matched_ids_split:
  assumes "decimal 44 = None" and "decimal 10 = None"
  shows "(matches_from decimal AfterDigit s \<longrightarrow> cur \<noteq> [] \<longrightarrow> list_all (is_digit decimal) cur \<longrightarrow>
            (\<forall>g \<in> set (split_comma s cur). \<exists>ds. ds \<noteq> [] \<and> list_all (is_digit decimal) ds
                \<and> (g = ds \<or> g = ds @ [10])))
       \<and> (matches_from decimal AtStart s \<longrightarrow>
            (\<forall>g \<in> set (split_comma s []). \<exists>ds. ds \<noteq> [] \<and> list_all (is_digit decimal) ds
                \<and> (g = ds \<or> g = ds @ [10])))"
proof (induction s arbitrary: cur)
  case Nil
  show ?case by auto
next
  case (Cons ch s)
  have d44: "\<not> is_digit decimal 44" using assms(1) by (simp add: is_digit_def)
  show ?case
  proof (intro conjI impI)
    assume m: "matches_from decimal AfterDigit (ch # s)" and c: "cur \<noteq> []"
      "list_all (is_digit decimal) cur"
    from m consider (digit) "is_digit decimal ch" "matches_from decimal AfterDigit s"
      | (comma) "ch = 44" "matches_from decimal AtStart s"
      | (newline) "ch = 10" "s = []" by auto
    then show "\<forall>g \<in> set (split_comma (ch # s) cur). \<exists>ds. ds \<noteq> [] \<and> list_all (is_digit decimal) ds
                \<and> (g = ds \<or> g = ds @ [10])"
    proof cases
      case digit
      then have "ch \<noteq> 44" using d44 by auto
      moreover have "\<forall>g \<in> set (split_comma s (cur @ [ch])). \<exists>ds. ds \<noteq> []
          \<and> list_all (is_digit decimal) ds \<and> (g = ds \<or> g = ds @ [10])"
        using Cons.IH [of "cur @ [ch]"] digit c by simp
      ultimately show ?thesis by simp
    next
      case comma
      with Cons.IH [of cur] c show ?thesis by auto
    next
      case newline
      with c show ?thesis by auto
    qed
  next
    assume m: "matches_from decimal AtStart (ch # s)"
    then have dg: "is_digit decimal ch" "matches_from decimal AfterDigit s" by auto
    then have "ch \<noteq> 44" using d44 by auto
    moreover have "\<forall>g \<in> set (split_comma s [ch]). \<exists>ds. ds \<noteq> []
          \<and> list_all (is_digit decimal) ds \<and> (g = ds \<or> g = ds @ [10])"
      using Cons.IH [of "[ch]"] dg by simp
    ultimately show "\<forall>g \<in> set (split_comma (ch # s) []). \<exists>ds. ds \<noteq> []
          \<and> list_all (is_digit decimal) ds \<and> (g = ds \<or> g = ds @ [10])"
      by simp
  qed
qed

text \<open>
  Claim C8, as amended.  For a view whose filter only narrows a queryset,
  \<open>easy_bulk_destroy\<close> selects by identifiers only.  A non-empty \<open>ids\<close> that does not
  match the pattern raises \<open>ParseError\<close> and nothing else happens.  A non-empty \<open>ids\<close> that
  matches restricts the queryset to the instances whose key is one of the listed
  numbers and passes it through the view's filter: 400 and no deletion when the filter
  returns the restricted queryset itself, else 204 and the deletion of every instance
  of the filtered queryset, each of which is an instance of the view's queryset whose
  key is listed.  Without \<open>ids\<close>, or with the empty string, the queryset is restricted to
  the empty list of identifiers: the answer is 400 or 204 by the same test and nothing
  is deleted.
\<close>

theorem easy_bulk_destroy_selection:
  assumes "\<And>qs. set (rows (filter_queryset v qs)) \<subseteq> set (rows qs)"
  shows "(s \<noteq> [] \<and> \<not> ids_match decimal s \<longrightarrow>
      easy_bulk_destroy decimal v (Some s) = (Inl (ParseError ''Invalid ids''), []))
   \<and> (s \<noteq> [] \<and> ids_match decimal s \<longrightarrow>
      easy_bulk_destroy decimal v (Some s) =
        (let qs = filter_id_in decimal (split s) (get_queryset v);
             filtered = filter_queryset v qs
         in if ident filtered = ident qs then (Inr (Response 400 NoContent), [])
            else (Inr (Response 204 NoContent), map Deleted (rows filtered)))
      \<and> (\<forall>e \<in> set (rows (filter_queryset v (filter_id_in decimal (split s) (get_queryset v)))).
            e \<in> set (rows (get_queryset v))
            \<and> (\<exists>x \<in> set (split s). key e = PInt (int_of_string decimal x))))
   \<and> (ids = None \<or> ids = Some [] \<longrightarrow>
      easy_bulk_destroy decimal v ids =
        (if ident (filter_queryset v (filter_id_in decimal [] (get_queryset v)))
              = ident (filter_id_in decimal [] (get_queryset v))
         then (Inr (Response 400 NoContent), [])
         else (Inr (Response 204 NoContent), [])))"
proof (intro conjI impI)
  assume "s \<noteq> [] \<and> \<not> ids_match decimal s"
  then show "easy_bulk_destroy decimal v (Some s) = (Inl (ParseError ''Invalid ids''), [])"
    by (simp add: easy_bulk_destroy_def)
next
  assume "s \<noteq> [] \<and> ids_match decimal s"
  then show "easy_bulk_destroy decimal v (Some s) =
        (let qs = filter_id_in decimal (split s) (get_queryset v);
             filtered = filter_queryset v qs
         in if ident filtered = ident qs then (Inr (Response 400 NoContent), [])
            else (Inr (Response 204 NoContent), map Deleted (rows filtered)))"
    by (auto simp: easy_bulk_destroy_def allow_bulk_destroy_def perform_bulk_destroy_def Let_def)
next
  show "\<forall>e \<in> set (rows (filter_queryset v (filter_id_in decimal (split s) (get_queryset v)))).
            e \<in> set (rows (get_queryset v))
            \<and> (\<exists>x \<in> set (split s). key e = PInt (int_of_string decimal x))"
  proof
    fix e
    assume "e \<in> set (rows (filter_queryset v (filter_id_in decimal (split s) (get_queryset v))))"
    with assms have "e \<in> set (rows (filter_id_in decimal (split s) (get_queryset v)))" by blast
    then show "e \<in> set (rows (get_queryset v))
            \<and> (\<exists>x \<in> set (split s). key e = PInt (int_of_string decimal x))"
      by (auto simp: filter_id_in_def)
  qed
next
  assume h: "ids = None \<or> ids = Some []"
  let ?qs = "filter_id_in decimal [] (get_queryset v)"
  have "rows ?qs = []" by (simp add: filter_id_in_def)
  with assms [of ?qs] have e: "rows (filter_queryset v ?qs) = []" by simp
  from h show "easy_bulk_destroy decimal v ids =
        (if ident (filter_queryset v ?qs) = ident ?qs
         then (Inr (Response 400 NoContent), [])
         else (Inr (Response 204 NoContent), []))"
    by (auto simp: easy_bulk_destroy_def allow_bulk_destroy_def perform_bulk_destroy_def
          Let_def e)
qed

text \<open>
  On the sample view: \<open>ids=1,2,abc\<close> is a parse error, \<open>ids=1,3\<close> deletes the instance 1
  (the filter hides 3), so does the Arabic-Indic digit one (code point 1633), and no
  \<open>ids\<close> deletes nothing.
\<close>

theorem easy_bulk_destroy_selection_witness:
  "easy_bulk_destroy sample_decimal sample_view (Some (ascii ''1,2,abc''))
     = (Inl (ParseError ''Invalid ids''), [])
   \<and> easy_bulk_destroy sample_decimal sample_view (Some (ascii ''1,3''))
       = (Inr (Response 204 NoContent), [Deleted (named 1 ''a'')])
   \<and> easy_bulk_destroy sample_decimal sample_view (Some [1633])
       = (Inr (Response 204 NoContent), [Deleted (named 1 ''a'')])
   \<and> easy_bulk_destroy sample_decimal sample_view None = (Inr (Response 204 NoContent), [])"
proof -
  have n: "\<And>qs. set (rows (filter_queryset sample_view qs)) \<subseteq> set (rows qs)"
    by (auto simp: sample_view_def)
  have a: "ascii ''1,2,abc'' \<noteq> [] \<and> \<not> ids_match sample_decimal (ascii ''1,2,abc'')"
    by code_simp
  have b: "ascii ''1,3'' \<noteq> [] \<and> ids_match sample_decimal (ascii ''1,3'')" by code_simp
  have c: "(None :: pystr option) = None \<or> None = Some []" by simp
  have u: "[1633] \<noteq> [] \<and> ids_match sample_decimal [1633]" by code_simp
  have u': "(let qs = filter_id_in sample_decimal (split [1633]) (get_queryset sample_view);
                filtered = filter_queryset sample_view qs
             in if ident filtered = ident qs then (Inr (Response 400 NoContent), [])
                else (Inr (Response 204 NoContent), map Deleted (rows filtered)))
            = (Inr (Response 204 NoContent) :: exn + response, [Deleted (named 1 ''a'')])"
    by code_simp
  have b': "(let qs = filter_id_in sample_decimal (split (ascii ''1,3'')) (get_queryset sample_view);
                filtered = filter_queryset sample_view qs
             in if ident filtered = ident qs then (Inr (Response 400 NoContent), [])
                else (Inr (Response 204 NoContent), map Deleted (rows filtered)))
            = (Inr (Response 204 NoContent) :: exn + response, [Deleted (named 1 ''a'')])"
    by code_simp
  have c': "(if ident (filter_queryset sample_view
                         (filter_id_in sample_decimal [] (get_queryset sample_view)))
                = ident (filter_id_in sample_decimal [] (get_queryset sample_view))
             then (Inr (Response 400 NoContent), [])
             else (Inr (Response 204 NoContent), []))
            = (Inr (Response 204 NoContent) :: exn + response, [] :: operation list)"
    by code_simp
  from easy_bulk_destroy_selection [OF n, of "ascii ''1,2,abc''" sample_decimal None] a
  have 1: "easy_bulk_destroy sample_decimal sample_view (Some (ascii ''1,2,abc''))
      = (Inl (ParseError ''Invalid ids''), [])"
    by blast
  from easy_bulk_destroy_selection [OF n, of "ascii ''1,3''" sample_decimal None] b b'
  have 2: "easy_bulk_destroy sample_decimal sample_view (Some (ascii ''1,3''))
       = (Inr (Response 204 NoContent), [Deleted (named 1 ''a'')])"
    by simp
  from easy_bulk_destroy_selection [OF n, of "ascii ''1,3''" sample_decimal None] c c'
  have 3: "easy_bulk_destroy sample_decimal sample_view None = (Inr (Response 204 NoContent), [])"
    by simp
  from easy_bulk_destroy_selection [OF n, of "[1633]" sample_decimal None] u u'
  have 4: "easy_bulk_destroy sample_decimal sample_view (Some [1633])
       = (Inr (Response 204 NoContent), [Deleted (named 1 ''a'')])"
    by simp
  from 1 2 3 4 show ?thesis by simp
qed

text \<open>
  Claim C8 as stated fails in its mode (b): without \<open>ids\<close> the sample view deletes
  nothing, although its filtered queryset holds two instances, which the destroy of the
  base class deletes.
\<close>

theorem no_ids_selects_nothing_counterexample:
  "easy_bulk_destroy sample_decimal sample_view None = (Inr (Response 204 NoContent), [])
   \<and> rows (filter_queryset sample_view (get_queryset sample_view)) = [named 1 ''a'', named 2 ''b'']
   \<and> bulk_destroy sample_view
       = (Response 204 NoContent, [Deleted (named 1 ''a''), Deleted (named 2 ''b'')])"
  by code_simp

section \<open>Properties of the identity matching\<close>

lemma map_of_dict_set: "map_of (dict_set d k v) = (map_of d)(k \<mapsto> v)"
  by (induction d) (auto simp: fun_eq_iff)

lemma keys_dict_set: "fst ` set (dict_set d k v) = insert k (fst ` set d)"
  by (induction d) auto

lemma distinct_dict_set: "distinct (map fst d) \<Longrightarrow> distinct (map fst (dict_set d k v))"
proof (induction d)
  case Nil
  show ?case by simp
next
  case (Cons p d)
  have "fst ` set (dict_set d k v) = insert k (fst ` set d)" by (rule keys_dict_set)
  with Cons show ?case by auto
qed

lemma by_id_result:
  assumes "\<forall>i \<in> set vd. \<exists>k. map_of i a = Some k \<and> hashable k"
  shows "\<exists>d. by_id a vd d0 = Inr d
           \<and> map_of d = map_of (rev (entries a vd) @ d0)
           \<and> fst ` set d = fst ` set (entries a vd) \<union> fst ` set d0
           \<and> (distinct (map fst d0) \<longrightarrow> distinct (map fst d))"
  using assms
proof (induction vd arbitrary: d0)
  case Nil
  show ?case by (simp add: entries_def)
next
  case (Cons i vd)
  then obtain k where k: "map_of i a = Some k" "hashable k" by auto
  let ?d1 = "dict_set d0 k (dict_del i a)"
  from Cons.prems have "\<forall>i \<in> set vd. \<exists>k. map_of i a = Some k \<and> hashable k" by simp
  from Cons.IH [OF this, of ?d1] obtain d where d: "by_id a vd ?d1 = Inr d"
    "map_of d = map_of (rev (entries a vd) @ ?d1)"
    "fst ` set d = fst ` set (entries a vd) \<union> fst ` set ?d1"
    "distinct (map fst ?d1) \<longrightarrow> distinct (map fst d)" by blast
  have e: "entries a (i # vd) = (k, dict_del i a) # entries a vd"
    using k by (simp add: entries_def)
  have "by_id a (i # vd) d0 = Inr d" using k d(1) by simp
  moreover have "map_of d = map_of (rev (entries a (i # vd)) @ d0)"
    using d(2) by (simp add: e map_of_dict_set)
  moreover have "fst ` set d = fst ` set (entries a (i # vd)) \<union> fst ` set d0"
    using d(3) by (simp add: e keys_dict_set)
  moreover have "distinct (map fst d0) \<longrightarrow> distinct (map fst d)"
  proof
    assume "distinct (map fst d0)"
    then have "distinct (map fst ?d1)" by (rule distinct_dict_set)
    with d(4) show "distinct (map fst d)" by simp
  qed
  ultimately show ?case by (intro exI conjI)
qed



lemma to_python_all_converted:
  "\<forall>k \<in> set ks. \<exists>k'. key_to_python c k = Inr k' \<Longrightarrow>
   to_python_all (key_to_python c) ks = Inr (converted c ks)"
  by (induction ks) (auto simp: converted_def)


lemma set_converted:
  "set (converted c ks) = {k'. \<exists>k \<in> set ks. key_to_python c k = Inr k'}"
  by (auto simp: converted_def split: sum.splits)

lemma entries_keys:
  "k \<in> fst ` set (entries a vd) \<longleftrightarrow> (\<exists>i \<in> set vd. map_of i a = Some k)"
  by (auto simp: entries_def image_iff split: option.splits) force


lemma update_eq:
  assumes "\<forall>i \<in> set vd. \<exists>k. map_of i a = Some k \<and> hashable k"
    and "\<forall>k \<in> fst ` set (entries a vd). truthy k \<and> \<not> isclass k"
    and "\<forall>k \<in> fst ` set (entries a vd). \<exists>k'. key_to_python c k = Inr k'"
  shows "update c a qs vd =
     (if card (fst ` set (entries a vd))
           \<noteq> length (filter (\<lambda>e. key e \<in> set (converted c (map fst (entries a vd)))) qs)
      then (Inl (ValidationError (invalid_message ''Could not find all objects to update.'')), [])
      else (Inr (map (\<lambda>obj. child_update c obj (map_of (rev (entries a vd)) (key obj)))
                  (filter (\<lambda>e. key e \<in> set (converted c (map fst (entries a vd)))) qs)),
            map (\<lambda>obj. Updated obj (map_of (rev (entries a vd)) (key obj)))
                  (filter (\<lambda>e. key e \<in> set (converted c (map fst (entries a vd)))) qs)))"
proof -
  from by_id_result [OF assms(1), of "[]"] obtain d where d: "by_id a vd [] = Inr d"
    "map_of d = map_of (rev (entries a vd))" "fst ` set d = fst ` set (entries a vd)"
    "distinct (map fst d)" by auto
  from d(4) have "card (set (map fst d)) = length (map fst d)" by (rule distinct_card)
  then have n: "length d = card (fst ` set (entries a vd))" using d(3) by simp
  have k: "set (map fst d) = fst ` set (entries a vd)" using d(3) by simp
  have g: "list_all (\<lambda>i. truthy i \<and> \<not> isclass i) (map fst d)"
    unfolding list_all_iff k using assms(2) by blast
  have "\<forall>k \<in> set (map fst d). \<exists>k'. key_to_python c k = Inr k'"
    unfolding k using assms(3) by blast
  then have p: "to_python_all (key_to_python c) (map fst d) = Inr (converted c (map fst d))"
    by (rule to_python_all_converted)
  have "set (map fst (entries a vd)) = fst ` set (entries a vd)" by simp
  with k have "set (converted c (map fst d)) = set (converted c (map fst (entries a vd)))"
    unfolding set_converted by simp
  then have s: "filter (\<lambda>e. key e \<in> set (converted c (map fst d))) qs
      = filter (\<lambda>e. key e \<in> set (converted c (map fst (entries a vd)))) qs"
    by simp
  show ?thesis
    unfolding update_def d(1) using g by (simp add: p s n d(2) Let_def del: set_map)
qed



text \<open>
  Claim C9.  When every validated record carries a usable lookup key that can be
  converted to the type of the column, the dict of records by key has one entry per
  distinct key, and the entry of a key holds the attributes of the last record with that
  key (\<open>map_of\<close> on the reversed entries); the count check compares the number of
  distinct keys with the number of matched instances, and when they agree each matched
  instance is updated once, with what the dict holds for the key of the instance.  The
  number of records does not occur.
\<close>

theorem duplicate_keys_collapse:
  assumes "\<forall>i \<in> set vd. \<exists>k k'. map_of i a = Some k \<and> hashable k \<and> truthy k \<and> \<not> isclass k
              \<and> key_to_python c k = Inr k'"
  shows "\<exists>d. by_id a vd [] = Inr d
           \<and> distinct (map fst d)
           \<and> fst ` set d = fst ` set (entries a vd)
           \<and> map_of d = map_of (rev (entries a vd))
           \<and> update c a qs vd =
              (if card (fst ` set (entries a vd))
                    \<noteq> length (filter (\<lambda>e. key e \<in> set (converted c (map fst (entries a vd)))) qs)
               then (Inl (ValidationError
                            (invalid_message ''Could not find all objects to update.'')), [])
               else (Inr (map (\<lambda>obj. child_update c obj (map_of d (key obj)))
                           (filter (\<lambda>e. key e \<in> set (converted c (map fst (entries a vd)))) qs)),
                     map (\<lambda>obj. Updated obj (map_of d (key obj)))
                           (filter (\<lambda>e. key e \<in> set (converted c (map fst (entries a vd)))) qs)))"
proof -
  from assms have h: "\<forall>i \<in> set vd. \<exists>k. map_of i a = Some k \<and> hashable k" by blast
  from by_id_result [OF h, of "[]"] obtain d where d: "by_id a vd [] = Inr d"
    "map_of d = map_of (rev (entries a vd))" "fst ` set d = fst ` set (entries a vd)"
    "distinct (map fst d)" by auto
  have u: "\<forall>k \<in> fst ` set (entries a vd). truthy k \<and> \<not> isclass k"
  proof
    fix k assume "k \<in> fst ` set (entries a vd)"
    then obtain i where "i \<in> set vd" "map_of i a = Some k" unfolding entries_keys by blast
    with assms show "truthy k \<and> \<not> isclass k" by fastforce
  qed
  have v: "\<forall>k \<in> fst ` set (entries a vd). \<exists>k'. key_to_python c k = Inr k'"
  proof
    fix k assume "k \<in> fst ` set (entries a vd)"
    then obtain i where "i \<in> set vd" "map_of i a = Some k" unfolding entries_keys by blast
    with assms show "\<exists>k'. key_to_python c k = Inr k'" by fastforce
  qed
  have "update c a qs vd =
              (if card (fst ` set (entries a vd))
                    \<noteq> length (filter (\<lambda>e. key e \<in> set (converted c (map fst (entries a vd)))) qs)
               then (Inl (ValidationError
                            (invalid_message ''Could not find all objects to update.'')), [])
               else (Inr (map (\<lambda>obj. child_update c obj (map_of d (key obj)))
                           (filter (\<lambda>e. key e \<in> set (converted c (map fst (entries a vd)))) qs)),
                     map (\<lambda>obj. Updated obj (map_of d (key obj)))
                           (filter (\<lambda>e. key e \<in> set (converted c (map fst (entries a vd)))) qs)))"
    by (simp add: update_eq [OF h u v] d(2))
  with d show ?thesis by blast
qed



text \<open>
  Two records with the key 1 against a queryset holding the instance 1: no error, one
  update, with the data of the second record.
\<close>

theorem duplicate_keys_collapse_witness:
  "update sample_child ''id'' [named 1 ''a'']
       [[(''id'', PInt 1), (''name'', PStr ''x'')], [(''id'', PInt 1), (''name'', PStr ''y'')]]
     = (Inr [\<lparr>key = PInt 1, attrs = [(''name'', PStr ''y'')]\<rparr>],
        [Updated (named 1 ''a'') (Some [(''name'', PStr ''y'')])])"
proof -
  let ?qs = "[named 1 ''a'']"
  let ?vd = "[[(''id'', PInt 1), (''name'', PStr ''x'')], [(''id'', PInt 1), (''name'', PStr ''y'')]]"
  have a: "\<forall>i \<in> set ?vd. \<exists>k k'. map_of i ''id'' = Some k \<and> hashable k \<and> truthy k \<and> \<not> isclass k
              \<and> key_to_python sample_child k = Inr k'"
    by (simp add: sample_child_def int_key_def)
  from duplicate_keys_collapse [OF a, of ?qs]
  obtain d where d: "map_of d = map_of (rev (entries ''id'' ?vd))"
    and u: "update sample_child ''id'' ?qs ?vd =
              (if card (fst ` set (entries ''id'' ?vd))
                    \<noteq> length (filter (\<lambda>e. key e \<in> set (converted sample_child (map fst (entries ''id'' ?vd)))) ?qs)
               then (Inl (ValidationError
                            (invalid_message ''Could not find all objects to update.'')), [])
               else (Inr (map (\<lambda>obj. child_update sample_child obj (map_of d (key obj)))
                           (filter (\<lambda>e. key e \<in> set (converted sample_child (map fst (entries ''id'' ?vd)))) ?qs)),
                     map (\<lambda>obj. Updated obj (map_of d (key obj)))
                           (filter (\<lambda>e. key e \<in> set (converted sample_child (map fst (entries ''id'' ?vd)))) ?qs)))"
    by blast
  show ?thesis unfolding u d
    by (simp add: entries_def named_def dict_del_def sample_child_def converted_def int_key_def)
qed

text \<open>
  A key given as the string \<open>1\<close> is converted for the lookup and finds the instance 1,
  the dict has no entry for the key 1 of the instance, and the child's update is called
  with \<open>None\<close>.
\<close>

lemma string_key_updates_with_none:
  "update sample_child ''id'' [named 1 ''a''] [[(''id'', PStr ''1''), (''name'', PStr ''x'')]]
     = (Inr [named 1 ''a''], [Updated (named 1 ''a'') None])"
  by code_simp

section \<open>Properties of the bulk create\<close>

lemma try_item_no_lookup:
  "view_action s = None \<or> view_action s = Some ''create'' \<Longrightarrow>
   try_item c s it = (case child_run_validation c None it of Inl d \<Rightarrow> Invalid d | Inr v \<Rightarrow> Valid v)"
  by (auto simp: try_item_def)

lemma to_internal_value_no_lookup:
  assumes "view_action s = None \<or> view_action s = Some ''create''"
    and "allow_empty s \<or> L \<noteq> []"
  shows "to_internal_value c s (BodyList L) =
     Inr (accepted_values c L,
          map (record_detail c) L)"
proof -
  have t: "\<And>it. try_item c s it =
      (case child_run_validation c None it of Inl d \<Rightarrow> Invalid d | Inr v \<Rightarrow> Valid v)"
    using assms(1) by (rule try_item_no_lookup)
  have na: "\<forall>it \<in> set L. \<not> is_abort (try_item c s it)"
    by (simp add: t split: sum.split)
  have v: "concat (map (\<lambda>it. outcome_values (try_item c s it)) L) = accepted_values c L"
    unfolding accepted_values_def t
    by (rule arg_cong [where f = concat]) (simp split: sum.split)
  have e: "map (\<lambda>it. outcome_detail (try_item c s it)) L
      = map (record_detail c) L"
    unfolding t record_detail_def by (simp split: sum.split)
  from assms(2) have "to_internal_value c s (BodyList L) = validate_items c s L [] []"
    by (auto simp: to_internal_value_def)
  with validate_items_complete [OF na, of "[]" "[]"] v e show ?thesis by simp
qed

lemma accepted_values_Cons:
  "accepted_values c (it # L) =
     (case child_run_validation c None it of Inl d \<Rightarrow> [] | Inr v \<Rightarrow> [v]) @ accepted_values c L"
  by (simp add: accepted_values_def)

lemma build_rows_expected:
  assumes "\<forall>it \<in> set L. child_run_validation c None it \<noteq> Inl []"
  shows "build_rows (map (created_representation c) (accepted_values c L))
           (map (\<lambda>it. ElemDict (record_detail c it)) L)
           resp
         = Inr (resp @ map (expected_row c) L)"
  using assms
proof (induction L arbitrary: resp)
  case Nil
  show ?case by (simp add: accepted_values_def)
next
  case (Cons it L)
  from Cons.prems have p: "\<forall>it \<in> set L. child_run_validation c None it \<noteq> Inl []" by simp
  note ih = Cons.IH [OF p]
  show ?case
  proof (cases "child_run_validation c None it")
    case (Inl d)
    with Cons.prems have ne: "d \<noteq> []" by auto
    have h1: "record_detail c it = d" using Inl by (simp add: record_detail_def)
    have h2: "expected_row c it
        = Failed (map (\<lambda>(k, error_list). (k, get_full_details error_list)) d)"
      using Inl by (simp add: expected_row_def)
    show ?thesis by (simp add: accepted_values_Cons Inl h1 h2 ne ih)
  next
    case (Inr v)
    have h1: "record_detail c it = []" using Inr by (simp add: record_detail_def)
    have h2: "expected_row c it = Successful (Some (created_representation c v))"
      using Inr by (simp add: expected_row_def)
    show ?thesis by (simp add: accepted_values_Cons Inr h1 h2 ih)
  qed
qed

lemma any_errors_iff:
  assumes "\<forall>it \<in> set L. child_run_validation c None it \<noteq> Inl []"
  shows "any_errors (map (record_detail c) L)
     \<longleftrightarrow> \<not> (\<forall>it \<in> set L. \<exists>v. child_run_validation c None it = Inr v)"
  using assms by (induction L) (auto simp: any_errors_def record_detail_def split: sum.splits)

lemma to_representation_no_errors:
  "errors s = Some (ErrRows []) \<Longrightarrow> to_representation rep s xs = map rep xs"
  by (simp add: to_representation_def error_positions_def)


lemma save_and_respond_created:
  assumes "validated_data s = Some (Records vs)" and "self_instance s = None"
    and "errors s = Some (ErrRows [])" and "initial_data s = Some b" and "data_cache s = None"
  shows "save_and_respond c ok E s =
     (if truthy_errors E then
        (case build_multi_status_response (map (created_representation c) vs) E of
           Inl e \<Rightarrow> Inl e
         | Inr rs \<Rightarrow> Inr (Response 207 (Multi rs)))
      else Inr (Response ok (Plain (map (created_representation c) vs))),
      map Created vs)"
proof -
  let ?objs = "map (child_create c) vs"
  let ?s1 = "s\<lparr>self_instance := Some ?objs\<rparr>"
  have sv: "save c s = (Inr ?objs, ?s1, map Created vs)"
    using assms by (simp add: save_def)
  have "to_representation (child_to_representation c) ?s1 ?objs
          = map (child_to_representation c) ?objs"
    using assms(3) by (simp add: to_representation_no_errors)
  moreover have "map (\<lambda>x. child_to_representation c (child_create c x)) vs
          = map (created_representation c) vs"
    by (simp add: created_representation_def)
  ultimately have d: "data c ?s1 = (Inr (map (created_representation c) vs),
                  ?s1\<lparr>data_cache := Some (map (created_representation c) vs)\<rparr>)"
    using assms by (simp add: data_def errors_truthy_def Let_def)
  show ?thesis
    by (simp add: save_and_respond_def sv d split: sum.split)
qed

text \<open>
  Claim C1.  A bulk create of the list \<open>L\<close>, with no lookup made (no view, or the action
  \<open>create\<close>), \<open>L\<close> passing the shape checks, the list-level validation returning the
  validated values as they are, and the child never failing with an empty error dict:
  when every record passes validation the answer is 201 with the plain list of the
  representations of the created instances; otherwise it is 207 with one element per
  record of \<open>L\<close>, in order, a failure with the record's error details when it failed and
  a success with the representation of the instance created from it when it passed (the
  successes are the representations of the accepted records in order, so each success
  takes the next one).  One instance is created per accepted record.
\<close>

theorem bulk_create_response:
  assumes nl: "view_action s0 = None \<or> view_action s0 = Some ''create''"
    and sh: "allow_empty s0 \<or> L \<noteq> []"
    and lv: "list_validate c (accepted_values c L) = Inr (accepted_values c L)"
    and ct: "\<forall>it \<in> set L. child_run_validation c None it \<noteq> Inl []"
  shows "create c s0 (BodyList L) =
     (Inr (if \<forall>it \<in> set L. \<exists>v. child_run_validation c None it = Inr v
           then Response 201 (Plain (map (created_representation c) (accepted_values c L)))
           else Response 207 (Multi (map (expected_row c) L))),
      map Created (accepted_values c L))"
proof -
  let ?s = "get_serializer s0 None (BodyList L)"
  let ?vs = "accepted_values c L"
  let ?errs = "map (record_detail c) L"
  let ?s' = "?s\<lparr>validated_data := Some (Records ?vs), errors := Some (ErrRows [])\<rparr>"
  have "view_action ?s = None \<or> view_action ?s = Some ''create''"
    and "allow_empty ?s \<or> L \<noteq> []"
    using nl sh by (simp_all add: get_serializer_def)
  then have "to_internal_value c ?s (BodyList L) = Inr (?vs, ?errs)"
    by (rule to_internal_value_no_lookup)
  with lv have rv: "run_validation c ?s (BodyList L) = Inr (Some (?vs, ?errs))"
    by (simp add: run_validation_def validate_empty_values_def)
  have init: "initial_data ?s = Some (BodyList L)" "validated_data ?s = None"
    by (simp_all add: get_serializer_def)
  have fresh: "validated_data ?s' = Some (Records ?vs)" "self_instance ?s' = None"
    "errors ?s' = Some (ErrRows [])" "initial_data ?s' = Some (BodyList L)" "data_cache ?s' = None"
    by (simp_all add: get_serializer_def)
  note sr = save_and_respond_created [OF fresh]
  show ?thesis
  proof (cases "any_errors ?errs")
    case True
    then have ne: "?errs \<noteq> []" by (auto simp: any_errors_def)
    from True have inv: "\<not> (\<forall>it \<in> set L. \<exists>v. child_run_validation c None it = Inr v)"
      by (simp add: any_errors_iff [OF ct])
    have iv: "is_valid c False ?s
        = (Inr False, ?s\<lparr>validated_data := Some (Records ?vs), errors := Some (ErrRows ?errs)\<rparr>)"
      using True ne by (simp add: is_valid_def init rv handle_def)
    have te: "take_errors (?s\<lparr>validated_data := Some (Records ?vs), errors := Some (ErrRows ?errs)\<rparr>)
        = Inr (ErrRows ?errs, ?s')"
      using ne by (simp add: take_errors_def errors_property_def)
    have br: "build_multi_status_response (map (created_representation c) ?vs) (ErrRows ?errs)
        = Inr (map (expected_row c) L)"
      using build_rows_expected [OF ct, of "[]"]
      by (simp add: build_multi_status_response_def comp_def)
    show ?thesis
      using ne inv by (simp add: create_def iv te sr br)
  next
    case False
    then have inv: "\<forall>it \<in> set L. \<exists>v. child_run_validation c None it = Inr v"
      by (simp add: any_errors_iff [OF ct])
    have iv: "is_valid c False ?s = (Inr True, ?s')"
      using False by (simp add: is_valid_def init rv)
    have te: "take_errors ?s' = Inr (ErrRows [], ?s')"
      by (simp add: take_errors_def errors_property_def)
    show ?thesis
      using inv by (simp add: create_def iv te sr)
  qed
qed



text \<open>
  A valid record, a record with a blank name, a valid record: 207, the second position
  is the failure and the third takes the second created representation.
\<close>

theorem bulk_create_response_witness:
  "create sample_create_child (sample_serializer (Some ''create''))
       (BodyList [[(''name'', PStr ''a'')], [(''name'', PStr [])], [(''name'', PStr ''c'')]])
     = (Inr (Response 207 (Multi
          [Successful (Some [(''id'', PNone), (''name'', PStr ''a'')]),
           Failed [(''name'', [\<lparr>detail_message = ''This field may not be blank.'',
                                 detail_code = ''blank''\<rparr>])],
           Successful (Some [(''id'', PNone), (''name'', PStr ''c'')])])),
        [Created [(''name'', PStr ''a'')], Created [(''name'', PStr ''c'')]])"
proof -
  let ?c = sample_create_child
  let ?s0 = "sample_serializer (Some ''create'')"
  let ?L = "[[(''name'', PStr ''a'')], [(''name'', PStr [])], [(''name'', PStr ''c'')]]"
  have r0: "child_run_validation ?c None [(''name'', PStr ''a'')] = Inr [(''name'', PStr ''a'')]"
    by code_simp
  have r1: "child_run_validation ?c None [(''name'', PStr [])]
      = Inl (field_error ''name'' ''This field may not be blank.'' ''blank'')"
    by code_simp
  have r2: "child_run_validation ?c None [(''name'', PStr ''c'')] = Inr [(''name'', PStr ''c'')]"
    by code_simp
  have av: "accepted_values ?c ?L = [[(''name'', PStr ''a'')], [(''name'', PStr ''c'')]]"
    by (simp add: accepted_values_def r0 r1 r2)
  have h1: "view_action ?s0 = None \<or> view_action ?s0 = Some ''create''"
    by (simp add: sample_serializer_def)
  have h2: "allow_empty ?s0 \<or> ?L \<noteq> []" by simp
  have h3: "list_validate ?c (accepted_values ?c ?L) = Inr (accepted_values ?c ?L)"
    by (simp add: sample_create_child_def sample_child_def)
  have h4: "\<forall>it \<in> set ?L. child_run_validation ?c None it \<noteq> Inl []"
    by (simp add: r0 r1 r2 field_error_def)
  have rw: "map (expected_row ?c) ?L =
          [Successful (Some [(''id'', PNone), (''name'', PStr ''a'')]),
           Failed [(''name'', [\<lparr>detail_message = ''This field may not be blank.'',
                                 detail_code = ''blank''\<rparr>])],
           Successful (Some [(''id'', PNone), (''name'', PStr ''c'')])]"
    by code_simp
  have nv: "\<not> (\<forall>it \<in> set ?L. \<exists>v. child_run_validation ?c None it = Inr v)"
    by (simp add: r1)
  from bulk_create_response [OF h1 h2 h3 h4] nv
  have "create ?c ?s0 (BodyList ?L) =
      (Inr (Response 207 (Multi (map (expected_row ?c) ?L))), map Created (accepted_values ?c ?L))"
    by (simp only: if_False)
  then show ?thesis unfolding av rw by simp
qed

end
